theory Spec2Isabelle
  imports Main "HOL-Library.Char_ord" "HOL-Library.List_Lexorder"
begin

section \<open>JavaScript values the code relies on\<close>

text \<open>
  A call either returns a value or throws (for an \<open>async\<close> function: the promise
  rejects). Every call into code outside the modelled files can do either.
\<close>

datatype 'a outcome = Throws | Returns 'a

text \<open>
  \<open>string | undefined\<close> is a \<open>string option\<close>. JavaScript's truthiness of such a
  value: \<open>undefined\<close>, \<open>null\<close> and the empty string are falsy.
\<close>

fun truthy :: "string option \<Rightarrow> bool" where
  "truthy None = False"
| "truthy (Some s) = (s \<noteq> [])"

text \<open>\<open>status || d\<close> on \<open>number | undefined\<close>: \<open>undefined\<close> and \<open>0\<close> are falsy.\<close>

fun or_default :: "nat option \<Rightarrow> nat \<Rightarrow> nat" where
  "or_default None d = d"
| "or_default (Some n) d = (if n = 0 then d else n)"

text \<open>\<open>s.startsWith(p)\<close>, on the code units of the two strings.\<close>

fun startsWith :: "string \<Rightarrow> string \<Rightarrow> bool" where
  "startsWith s [] = True"
| "startsWith [] (c # p) = False"
| "startsWith (x # s) (c # p) = (x = c \<and> startsWith s p)"

section \<open>The role-permission table (rbac module, lines 7-67)\<close>

record AuthenticatedUser =
  uid :: string
  email :: string
  role :: string
  firstName :: string
  lastName :: string

record Permission =
  resource :: string
  action :: string

definition perm :: "string \<Rightarrow> string \<Rightarrow> Permission" where
  "perm r a = \<lparr>resource = r, action = a\<rparr>"

text \<open>
  \<open>ROLE_PERMISSIONS\<close> is an object literal; its own properties, in the order of the
  source.
\<close>

definition ROLE_PERMISSIONS :: "(string \<times> Permission list) list" where
  "ROLE_PERMISSIONS =
    [(''admin'',
       [perm ''attendance'' ''view_all'',
        perm ''attendance'' ''approve'',
        perm ''attendance'' ''edit'',
        perm ''attendance'' ''export'',
        perm ''leave'' ''view_all'',
        perm ''leave'' ''approve'',
        perm ''leave'' ''reject'',
        perm ''leave'' ''export'',
        perm ''payroll'' ''view_all'',
        perm ''payroll'' ''edit'',
        perm ''payroll'' ''export'',
        perm ''employees'' ''view_all'',
        perm ''employees'' ''create'',
        perm ''employees'' ''edit'',
        perm ''employees'' ''delete'',
        perm ''documents'' ''view_all'',
        perm ''documents'' ''upload'',
        perm ''documents'' ''delete'']),
     (''hr'',
       [perm ''attendance'' ''view_all'',
        perm ''attendance'' ''approve'',
        perm ''attendance'' ''export'',
        perm ''leave'' ''view_all'',
        perm ''leave'' ''approve'',
        perm ''leave'' ''reject'',
        perm ''leave'' ''export'',
        perm ''payroll'' ''view_all'',
        perm ''payroll'' ''export'',
        perm ''employees'' ''view_all'',
        perm ''employees'' ''edit'',
        perm ''documents'' ''view_all'',
        perm ''documents'' ''upload'']),
     (''employee'',
       [perm ''attendance'' ''view_own'',
        perm ''attendance'' ''check_in'',
        perm ''attendance'' ''check_out'',
        perm ''leave'' ''apply'',
        perm ''leave'' ''view_own'',
        perm ''payroll'' ''view_own'',
        perm ''documents'' ''view_own'',
        perm ''documents'' ''upload''])]"

text \<open>
  The permission set the table declares for a role: the array of the role's own
  property, and no permission for a role the table does not name.
\<close>

definition declared :: "string \<Rightarrow> Permission list" where
  "declared r = (case map_of ROLE_PERMISSIONS r of Some ps \<Rightarrow> ps | None \<Rightarrow> [])"

text \<open>
  \<open>ROLE_PERMISSIONS[key]\<close> is a property read on an ordinary object: it finds the
  object's own properties and, failing that, the properties every object inherits from
  \<open>Object.prototype\<close>. The inherited ones are functions, and \<open>__proto__\<close> is the
  prototype object itself: all of them truthy, none of them an array.
\<close>

definition Object_prototype_keys :: "string list" where
  "Object_prototype_keys =
    [''constructor'', ''hasOwnProperty'', ''isPrototypeOf'', ''propertyIsEnumerable'',
     ''toLocaleString'', ''toString'', ''valueOf'', ''__proto__'',
     ''__defineGetter__'', ''__defineSetter__'', ''__lookupGetter__'', ''__lookupSetter__'']"

datatype property_value = Array "Permission list" | Inherited | Undefined

definition property_read :: "string \<Rightarrow> property_value" where
  "property_read key =
     (case map_of ROLE_PERMISSIONS key of
        Some ps \<Rightarrow> Array ps
      | None \<Rightarrow> if key \<in> set Object_prototype_keys then Inherited else Undefined)"

section \<open>The permission evaluator (rbac module, lines 105-139)\<close>

text \<open>
  \<open>ROLE_PERMISSIONS[user.role] || []\<close> replaces \<open>undefined\<close> by the empty array and
  keeps every truthy value. \<open>permissions.some(...)\<close> on an array is the existential
  test; on an inherited function or object, \<open>some\<close> is undefined and the call throws
  a TypeError.
\<close>

definition hasPermission :: "AuthenticatedUser \<Rightarrow> string \<Rightarrow> string \<Rightarrow> bool outcome" where
  "hasPermission user res act =
     (let permissions = (case property_read (role user) of Undefined \<Rightarrow> Array [] | v \<Rightarrow> v)
      in case permissions of
           Array ps \<Rightarrow> Returns (list_ex (\<lambda>p. resource p = res \<and> action p = act) ps)
         | _ \<Rightarrow> Throws)"

text \<open>The object \<open>{ error?: string; status?: number }\<close> the two guards return.\<close>

record CheckResult =
  check_error :: "string option"
  check_status :: "nat option"

definition empty_object :: CheckResult where
  "empty_object = \<lparr>check_error = None, check_status = None\<rparr>"

definition insufficient :: CheckResult where
  "insufficient = \<lparr>check_error = Some ''Insufficient permissions'', check_status = Some 403\<rparr>"

definition requirePermission :: "string \<Rightarrow> string \<Rightarrow> AuthenticatedUser \<Rightarrow> CheckResult outcome" where
  "requirePermission res act = (\<lambda>user.
     case hasPermission user res act of
       Throws \<Rightarrow> Throws
     | Returns ok \<Rightarrow> if \<not> ok then Returns insufficient else Returns empty_object)"

definition requireRole :: "string list \<Rightarrow> AuthenticatedUser \<Rightarrow> CheckResult" where
  "requireRole allowedRoles = (\<lambda>user.
     if role user \<notin> set allowedRoles then insufficient else empty_object)"



section \<open>The request authenticator (rbac module, lines 69-103)\<close>

text \<open>
  The token codec and the cookie reader (\<open>@/lib/auth\<close>) and the database are outside
  the modelled files: they are parameters. The payload of a verified token carries at
  least \<open>userId\<close> and \<open>role\<close>.
\<close>

record TokenPayload =
  userId :: string
  token_role :: string

text \<open>The columns of the \<open>users\<close> and \<open>attendance\<close> tables that the code names.\<close>

record users_row =
  users_id :: string
  users_email :: string
  users_role :: string
  users_first_name :: string
  users_last_name :: string
  users_employee_id :: string

record attendance_row =
  attendance_id :: string
  attendance_user_id :: string
  attendance_date :: string
  attendance_check_in :: "int option"
  attendance_check_out :: "int option"
  attendance_status :: string
  attendance_notes :: "string option"
  attendance_created_at :: "int option"
  attendance_updated_at :: "int option"

record database =
  users :: "users_row list"
  attendance :: "attendance_row list"

datatype statement = SelectUser | SelectAttendance | InsertAttendance

text \<open>
  What a request meets outside the modelled code: the cookie read and the token
  verification (each may throw), the database statements that reject (the store is
  unreachable, a constraint fails), the database's order on the \<open>date\<close> column, which
  of two result rows of equal date it returns first (\<open>ORDER BY\<close> leaves that open), its
  generated columns, the runtime's \<open>Date\<close> functions (timestamps are milliseconds), and
  the \<open>NODE_ENV\<close> variable.
\<close>

record world =
  getAuthCookie :: "string option outcome"
  verifyToken :: "string \<Rightarrow> TokenPayload option outcome"
  rejects :: "statement \<Rightarrow> bool"
  date_le :: "string \<Rightarrow> string \<Rightarrow> bool"
  tie_first :: "attendance_row \<times> users_row option \<Rightarrow> attendance_row \<times> users_row option \<Rightarrow> bool"
  generated_id :: string
  generated_at :: "int option"
  new_Date :: "string \<Rightarrow> int"
  toISOString :: "int \<Rightarrow> string"
  NODE_ENV :: "string option"

record AuthResult =
  auth_user :: "AuthenticatedUser option"
  auth_error :: "string option"
  auth_status :: "nat option"

definition failure :: "string \<Rightarrow> nat \<Rightarrow> AuthResult" where
  "failure msg code = \<lparr>auth_user = None, auth_error = Some msg, auth_status = Some code\<rparr>"

definition success :: "AuthenticatedUser \<Rightarrow> AuthResult" where
  "success u = \<lparr>auth_user = Some u, auth_error = None, auth_status = None\<rparr>"

text \<open>
  \<open>db.select({id, email, role, firstName, lastName}).from(users)
  .where(eq(users.id, userId)).limit(1)\<close>
\<close>

definition select_user :: "database \<Rightarrow> string \<Rightarrow> AuthenticatedUser list" where
  "select_user db k =
     take 1 (map (\<lambda>r. \<lparr>uid = users_id r, email = users_email r, role = users_role r,
                         firstName = users_first_name r, lastName = users_last_name r\<rparr>)
               (filter (\<lambda>r. users_id r = k) (users db)))"

text \<open>
  The whole body is inside \<open>try\<close>; the \<open>catch\<close> turns every throw into the 500 result,
  so the function itself always returns.
\<close>

definition authenticateRequest :: "world \<Rightarrow> database \<Rightarrow> AuthResult" where
  "authenticateRequest w db =
     (case getAuthCookie w of
        Throws \<Rightarrow> failure ''Authentication failed'' 500
      | Returns token \<Rightarrow>
          if \<not> truthy token then failure ''No authentication token found'' 401
          else (case verifyToken w (the token) of
             Throws \<Rightarrow> failure ''Authentication failed'' 500
           | Returns None \<Rightarrow> failure ''Invalid token'' 401
           | Returns (Some payload) \<Rightarrow>
               if rejects w SelectUser then failure ''Authentication failed'' 500
               else (case select_user db (userId payload) of
                  [] \<Rightarrow> failure ''User not found'' 404
                | u # _ \<Rightarrow> success u)))"

section \<open>The route guard (middleware.ts)\<close>

definition publicRoutes :: "string list" where
  "publicRoutes =
     [''/auth/login'', ''/auth/register'', ''/api/auth/login'', ''/api/auth/register'',
      ''/api/auth/logout'']"

definition roleBasedRoutes :: "(string \<times> string list) list" where
  "roleBasedRoutes =
     [(''/employees'', [''hr'', ''admin'']),
      (''/reports'', [''hr'', ''admin'']),
      (''/settings'', [''admin'']),
      (''/api/employees'', [''hr'', ''admin'']),
      (''/api/reports'', [''hr'', ''admin'']),
      (''/api/users'', [''hr'', ''admin''])]"

text \<open>
  A URL built by \<open>new URL(path, request.url)\<close> has the request's origin, the given
  absolute path and no query until one is set; the origin is left out.
\<close>

record URL =
  pathname :: string
  searchParams :: "(string \<times> string) list"

datatype SameSite = lax | strict | none

record Cookie =
  cookie_name :: string
  cookie_value :: string
  httpOnly :: bool
  secure :: bool
  sameSite :: SameSite
  maxAge :: nat
  cookie_path :: string

datatype NextResponse = NextResponse_next | NextResponse_redirect URL "Cookie list"

text \<open>The calls the guard makes into \<open>./lib/auth\<close>, in the order it makes them.\<close>

datatype call = Call_getAuthCookie | Call_verifyToken string

definition loginUrl :: URL where
  "loginUrl = \<lparr>pathname = ''/auth/login'', searchParams = []\<rparr>"

definition dashboardUrl :: URL where
  "dashboardUrl =
     \<lparr>pathname = ''/dashboard'', searchParams = [(''error'', ''insufficient_permissions'')]\<rparr>"

definition clear_cookie :: "world \<Rightarrow> Cookie" where
  "clear_cookie w =
     \<lparr>cookie_name = ''auth-token'', cookie_value = [], httpOnly = True,
      secure = (NODE_ENV w = Some ''production''), sameSite = lax, maxAge = 0,
      cookie_path = ''/''\<rparr>"

definition protected_without_token :: "string \<Rightarrow> bool" where
  "protected_without_token p =
     (startsWith p ''/app/'' \<or> startsWith p ''/api/'' \<or> p = ''/'' \<or>
      startsWith p ''/dashboard'' \<or> startsWith p ''/attendance'' \<or>
      startsWith p ''/documents'' \<or> startsWith p ''/leave'' \<or> startsWith p ''/payroll'')"

text \<open>
  The guard has no \<open>try\<close>: a throw of the cookie read or of the verification leaves it.
  The result is the list of calls made and the response (or the throw).
\<close>

definition middleware :: "world \<Rightarrow> string \<Rightarrow> call list \<times> NextResponse outcome" where
  "middleware w p =
     (if list_ex (\<lambda>route. startsWith p route) publicRoutes then ([], Returns NextResponse_next)
      else (case getAuthCookie w of
         Throws \<Rightarrow> ([Call_getAuthCookie], Throws)
       | Returns token \<Rightarrow>
           if \<not> truthy token then
             (if protected_without_token p
              then ([Call_getAuthCookie], Returns (NextResponse_redirect loginUrl []))
              else ([Call_getAuthCookie], Returns NextResponse_next))
           else (case verifyToken w (the token) of
              Throws \<Rightarrow> ([Call_getAuthCookie, Call_verifyToken (the token)], Throws)
            | Returns None \<Rightarrow>
                ([Call_getAuthCookie, Call_verifyToken (the token)],
                 Returns (NextResponse_redirect loginUrl [clear_cookie w]))
            | Returns (Some payload) \<Rightarrow>
                ([Call_getAuthCookie, Call_verifyToken (the token)],
                 Returns
                  (case find (\<lambda>route. startsWith p route) (map fst roleBasedRoutes) of
                     None \<Rightarrow> NextResponse_next
                   | Some protectedRoute \<Rightarrow>
                       (case map_of roleBasedRoutes protectedRoute of
                          None \<Rightarrow> NextResponse_next
                        | Some requiredRoles \<Rightarrow>
                            if token_role payload \<notin> set requiredRoles
                            then NextResponse_redirect dashboardUrl []
                            else NextResponse_next))))))"

section \<open>The attendance handlers (app/api/attendance/route.ts)\<close>

text \<open>
  A request: the three query parameters the \<open>GET\<close> handler reads
  (\<open>searchParams.get\<close> gives \<open>null\<close> for an absent parameter and the empty string for
  \<open>?userId=\<close>), and what \<open>request.json()\<close> gives the \<open>POST\<close> handler. The body's
  fields are strings or absent, as the handler expects them; a body that does not
  parse throws.
\<close>

record PostBody =
  body_date :: "string option"
  body_checkIn :: "string option"
  body_checkOut :: "string option"
  body_notes :: "string option"

record Request =
  param_from :: "string option"
  param_to :: "string option"
  param_userId :: "string option"
  request_json :: "PostBody outcome"

record JoinedUser =
  joined_id :: string
  joined_firstName :: string
  joined_lastName :: string
  joined_email :: string
  joined_employeeId :: string

record AttendanceRecord =
  record_id :: string
  record_date :: string
  record_checkIn :: string
  record_checkOut :: string
  workHours :: string
  extraHours :: string
  record_status :: string
  record_createdAt :: "string option"
  record_updatedAt :: "string option"
  record_user :: "JoinedUser option"

datatype Body =
  ErrorBody "string option"
| RecordsBody "AttendanceRecord list"
| RowBody attendance_row

record JsonResponse =
  response_body :: Body
  response_status :: nat

definition NextResponse_json :: "Body \<Rightarrow> nat \<Rightarrow> JsonResponse" where
  "NextResponse_json b s = \<lparr>response_body = b, response_status = s\<rparr>"

definition internal_server_error :: JsonResponse where
  "internal_server_error = NextResponse_json (ErrorBody (Some ''Internal server error'')) 500"


subsection \<open>Formatting of the worked hours (lines 93-127)\<close>








subsection \<open>The query of the \<open>GET\<close> handler (lines 36-73)\<close>








subsection \<open>The handlers\<close>


definition POST :: "world \<Rightarrow> database \<Rightarrow> Request \<Rightarrow> JsonResponse \<times> database" where
  "POST w db request =
     (let auth = authenticateRequest w db in
      if truthy (auth_error auth) \<or> auth_user auth = None
      then (NextResponse_json (ErrorBody (auth_error auth)) (or_default (auth_status auth) 401), db)
      else
        (case requirePermission ''attendance'' ''check_in'' (the (auth_user auth)) of
           Throws \<Rightarrow> (internal_server_error, db)
         | Returns permissionCheck \<Rightarrow>
             if truthy (check_error permissionCheck)
             then (NextResponse_json (ErrorBody (check_error permissionCheck))
                     (or_default (check_status permissionCheck) 403), db)
             else
               (case request_json request of
                  Throws \<Rightarrow> (internal_server_error, db)
                | Returns body \<Rightarrow>
                    if \<not> truthy (body_date body)
                    then (NextResponse_json (ErrorBody (Some ''Date is required'')) 400, db)
                    else if rejects w InsertAttendance then (internal_server_error, db)
                    else
                      (let newRecord =
                         \<lparr>attendance_id = generated_id w,
                          attendance_user_id = uid (the (auth_user auth)),
                          attendance_date = the (body_date body),
                          attendance_check_in =
                            (if truthy (body_checkIn body)
                             then Some (new_Date w (the (body_checkIn body))) else None),
                          attendance_check_out =
                            (if truthy (body_checkOut body)
                             then Some (new_Date w (the (body_checkOut body))) else None),
                          attendance_status = ''present'',
                          attendance_notes =
                            (if truthy (body_notes body) then body_notes body else None),
                          attendance_created_at = generated_at w,
                          attendance_updated_at = generated_at w\<rparr>
                       in (NextResponse_json (RowBody newRecord) 201,
                           db\<lparr>attendance := attendance db @ [newRecord]\<rparr>)))))"

section \<open>A sample deployment\<close>

text \<open>
  One concrete world, database and request, on which the theorems below are instantiated:
  the codec accepts the single token \<open>token-1\<close>, issued to user \<open>u1\<close> with the role
  given; the store holds \<open>u1\<close> with the (possibly different) role given, and a second
  user \<open>u2\<close>; each of the two has one attendance record.
\<close>

definition sample_world :: "string option outcome \<Rightarrow> string \<Rightarrow> world" where
  "sample_world cookie r =
     \<lparr>getAuthCookie = cookie,
      verifyToken = (\<lambda>t. if t = ''token-1''
                          then Returns (Some \<lparr>userId = ''u1'', token_role = r\<rparr>)
                          else Returns None),
      rejects = (\<lambda>s. False),
      date_le = (\<lambda>a b. a \<le> b),
      tie_first = (\<lambda>x y. attendance_id (fst x) \<le> attendance_id (fst y)),
      generated_id = ''a3'',
      generated_at = Some 0,
      new_Date = (\<lambda>s. 0),
      toISOString = (\<lambda>t. ''1970-01-01T00:00:00.000Z''),
      NODE_ENV = Some ''production''\<rparr>"

definition sample_database :: "string \<Rightarrow> database" where
  "sample_database r =
     \<lparr>users =
        [\<lparr>users_id = ''u1'', users_email = ''u1@example.com'', users_role = r,
          users_first_name = ''Ada'', users_last_name = ''One'', users_employee_id = ''E1''\<rparr>,
         \<lparr>users_id = ''u2'', users_email = ''u2@example.com'', users_role = ''employee'',
          users_first_name = ''Bob'', users_last_name = ''Two'', users_employee_id = ''E2''\<rparr>],
      attendance =
        [\<lparr>attendance_id = ''a1'', attendance_user_id = ''u1'', attendance_date = ''2024-01-02'',
          attendance_check_in = Some 0, attendance_check_out = Some 34200000,
          attendance_status = ''present'', attendance_notes = None,
          attendance_created_at = None, attendance_updated_at = None\<rparr>,
         \<lparr>attendance_id = ''a2'', attendance_user_id = ''u2'', attendance_date = ''2024-01-03'',
          attendance_check_in = None, attendance_check_out = None,
          attendance_status = ''present'', attendance_notes = None,
          attendance_created_at = None, attendance_updated_at = None\<rparr>]\<rparr>"

definition sample_user :: "string \<Rightarrow> AuthenticatedUser" where
  "sample_user r =
     \<lparr>uid = ''u1'', email = ''u1@example.com'', role = r, firstName = ''Ada'', lastName = ''One''\<rparr>"

definition sample_request :: "string option \<Rightarrow> Request" where
  "sample_request u =
     \<lparr>param_from = None, param_to = None, param_userId = u,
      request_json = Returns \<lparr>body_date = Some ''2024-01-05'', body_checkIn = None,
                               body_checkOut = None, body_notes = None\<rparr>\<rparr>"

section \<open>Facts about the JavaScript values and the tables\<close>

lemma truthy_Some: "truthy t \<Longrightarrow> \<exists>s. t = Some s \<and> s \<noteq> []"
  by (cases t) auto

lemma startsWithD: "startsWith s p \<Longrightarrow> \<exists>rest. s = p @ rest"
  by (induction s p rule: startsWith.induct) auto

lemma take_one_map_filter:
  "take 1 (map f (filter P xs)) = (case find P xs of None \<Rightarrow> [] | Some x \<Rightarrow> [f x])"
  by (induction xs) auto

lemma perm_eq_iff: "(p = perm r a) = (resource p = r \<and> action p = a)"
  by (cases p) (auto simp: perm_def)

lemma list_ex_perm:
  "list_ex (\<lambda>p. resource p = r \<and> action p = a) ps = (perm r a \<in> set ps)"
proof -
  have "\<And>p. (resource p = r \<and> action p = a) = (p = perm r a)"
    by (simp add: perm_eq_iff)
  then show ?thesis
    by (simp add: list_ex_iff)
qed

lemma own_keys: "(map_of ROLE_PERMISSIONS r = None) = (r \<notin> {''admin'', ''hr'', ''employee''})"
  by (simp add: ROLE_PERMISSIONS_def)

lemma own_not_inherited: "r \<in> {''admin'', ''hr'', ''employee''} \<Longrightarrow> r \<notin> set Object_prototype_keys"
  by (auto simp: Object_prototype_keys_def)

lemma declared_unknown: "r \<notin> {''admin'', ''hr'', ''employee''} \<Longrightarrow> declared r = []"
  using own_keys [of r] by (simp add: declared_def)

lemma check_in_admin: "perm ''attendance'' ''check_in'' \<notin> set (declared ''admin'')"
  by (simp add: declared_def ROLE_PERMISSIONS_def perm_def)

lemma check_in_hr: "perm ''attendance'' ''check_in'' \<notin> set (declared ''hr'')"
  by (simp add: declared_def ROLE_PERMISSIONS_def perm_def)



lemma employee_only:
  assumes "perm r a \<in> set (declared k)"
    and "perm r a \<notin> set (declared ''admin'')" and "perm r a \<notin> set (declared ''hr'')"
  shows "k = ''employee''"
proof (rule ccontr)
  assume "k \<noteq> ''employee''"
  with assms(2,3) have "perm r a \<notin> set (declared k)"
    using declared_unknown [of k] by (cases "k = ''admin''"; cases "k = ''hr''") auto
  with assms(1) show False by simp
qed

lemma insufficient_neq: "insufficient \<noteq> empty_object"
  by (simp add: insufficient_def empty_object_def)

section \<open>Facts about the permission evaluator\<close>

lemma hasPermission_declared:
  assumes "role u \<notin> set Object_prototype_keys"
  shows "hasPermission u r a = Returns (perm r a \<in> set (declared (role u)))"
  using assms
  by (simp add: hasPermission_def property_read_def declared_def list_ex_perm
      split: option.splits)

lemma hasPermission_inherited:
  assumes "role u \<in> set Object_prototype_keys"
  shows "hasPermission u r a = Throws"
proof -
  from assms own_not_inherited have "role u \<notin> {''admin'', ''hr'', ''employee''}"
    by blast
  then have "map_of ROLE_PERMISSIONS (role u) = None"
    by (simp add: own_keys)
  with assms show ?thesis
    by (simp add: hasPermission_def property_read_def)
qed

lemma hasPermission_True:
  assumes "hasPermission u r a = Returns True"
  shows "perm r a \<in> set (declared (role u))"
proof (cases "role u \<in> set Object_prototype_keys")
  case True
  with assms show ?thesis by (simp add: hasPermission_inherited)
next
  case False
  with assms show ?thesis by (simp add: hasPermission_declared)
qed

lemma requirePermission_admin_hr:
  assumes "role u = ''admin'' \<or> role u = ''hr''"
  shows "requirePermission ''attendance'' ''check_in'' u = Returns insufficient"
proof -
  from assms have "role u \<notin> set Object_prototype_keys"
    using own_not_inherited [of "role u"] by auto
  then have "hasPermission u ''attendance'' ''check_in'' =
      Returns (perm ''attendance'' ''check_in'' \<in> set (declared (role u)))"
    by (rule hasPermission_declared)
  with assms check_in_admin check_in_hr show ?thesis
    by (auto simp: requirePermission_def)
qed

lemma requirePermission_answers:
  "(hasPermission u r a = Returns True \<longrightarrow> requirePermission r a u = Returns empty_object) \<and>
   (hasPermission u r a = Returns False \<longrightarrow> requirePermission r a u = Returns insufficient) \<and>
   (requireRole allowedRoles u = insufficient) = (role u \<notin> set allowedRoles) \<and>
   (requireRole allowedRoles u = empty_object) = (role u \<in> set allowedRoles) \<and>
   insufficient = \<lparr>check_error = Some ''Insufficient permissions'', check_status = Some 403\<rparr> \<and>
   empty_object = \<lparr>check_error = None, check_status = None\<rparr>"
proof -
  have "requireRole allowedRoles u = (if role u \<in> set allowedRoles then empty_object else insufficient)"
    by (simp add: requireRole_def)
  then show ?thesis
    using insufficient_neq
    by (auto simp: requirePermission_def insufficient_def empty_object_def)
qed

section \<open>Facts about the request authenticator\<close>

lemma select_user_find:
  "select_user db k =
     (case find (\<lambda>r. users_id r = k) (users db) of
        None \<Rightarrow> []
      | Some r \<Rightarrow> [\<lparr>uid = users_id r, email = users_email r, role = users_role r,
                     firstName = users_first_name r, lastName = users_last_name r\<rparr>])"
  unfolding select_user_def by (rule take_one_map_filter)

lemma authenticateRequest_cases:
  "authenticateRequest w db = failure ''No authentication token found'' 401 \<or>
   authenticateRequest w db = failure ''Invalid token'' 401 \<or>
   authenticateRequest w db = failure ''User not found'' 404 \<or>
   authenticateRequest w db = failure ''Authentication failed'' 500 \<or>
   (\<exists>u. authenticateRequest w db = success u)"
  by (auto simp: authenticateRequest_def split: outcome.splits option.splits list.splits)

lemma authenticateRequest_user:
  assumes "auth_user (authenticateRequest w db) = Some u"
  shows "authenticateRequest w db = success u"
  using assms authenticateRequest_cases [of w db]
  by (auto simp: failure_def success_def)

lemma sample_authenticated:
  "authenticateRequest (sample_world (Returns (Some ''token-1'')) t) (sample_database r) =
     success (sample_user r)"
  by (simp add: authenticateRequest_def select_user_def sample_world_def sample_database_def
      sample_user_def)

lemma sample_auth_user:
  "auth_user (authenticateRequest (sample_world (Returns (Some ''token-1'')) t) (sample_database r)) =
     Some (sample_user r)"
  by (simp add: sample_authenticated success_def)



lemma sample_employee_check_in:
  "hasPermission (sample_user ''employee'') ''attendance'' ''check_in'' = Returns True"
  by (simp add: hasPermission_def property_read_def ROLE_PERMISSIONS_def perm_def sample_user_def)

section \<open>Facts about the route guard\<close>

lemma gated_routes:
  assumes "(route, allowed) \<in> set roleBasedRoutes"
  shows "route \<in> {''/employees'', ''/reports'', ''/settings'', ''/api/employees'',
                   ''/api/reports'', ''/api/users''}"
  using assms by (auto simp: roleBasedRoutes_def)

lemma not_public_gated:
  assumes "(route, allowed) \<in> set roleBasedRoutes" and "startsWith p route"
  shows "\<not> list_ex (\<lambda>route. startsWith p route) publicRoutes"
proof -
  from assms(2) obtain rest where p: "p = route @ rest"
    using startsWithD by blast
  from gated_routes [OF assms(1)] show ?thesis
    by (elim insertE emptyE) (simp_all add: p publicRoutes_def)
qed

lemma find_gated:
  assumes "(route, allowed) \<in> set roleBasedRoutes" and "startsWith p route"
  shows "find (\<lambda>route. startsWith p route) (map fst roleBasedRoutes) = Some route"
proof -
  from assms(2) obtain rest where p: "p = route @ rest"
    using startsWithD by blast
  from gated_routes [OF assms(1)] show ?thesis
    by (elim insertE emptyE) (simp_all add: p roleBasedRoutes_def)
qed

lemma map_of_gated:
  assumes "(route, allowed) \<in> set roleBasedRoutes"
  shows "map_of roleBasedRoutes route = Some allowed"
  using assms
  by (auto simp: roleBasedRoutes_def)

lemma unguarded_sections:
  assumes "startsWith p r" and "r \<in> {''/employees'', ''/reports'', ''/settings''}"
  shows "\<not> protected_without_token p" and "\<not> list_ex (\<lambda>route. startsWith p route) publicRoutes"
proof -
  from assms(1) obtain rest where p: "p = r @ rest"
    using startsWithD by blast
  from assms(2) show "\<not> protected_without_token p"
    by (elim insertE emptyE) (simp_all add: p protected_without_token_def)
  from assms(2) show "\<not> list_ex (\<lambda>route. startsWith p route) publicRoutes"
    by (elim insertE emptyE) (simp_all add: p publicRoutes_def)
qed

lemma middleware_falsy_token:
  assumes "\<not> list_ex (\<lambda>route. startsWith p route) publicRoutes"
    and "getAuthCookie w = Returns token" and "\<not> truthy token"
  shows "middleware w p =
      ([Call_getAuthCookie],
       Returns (if protected_without_token p then NextResponse_redirect loginUrl []
                else NextResponse_next))"
  using assms by (simp add: middleware_def)

lemma middleware_gated:
  assumes "getAuthCookie w = Returns (Some t)" and "t \<noteq> []"
    and "verifyToken w t = Returns (Some payload)"
    and "(route, allowed) \<in> set roleBasedRoutes" and "startsWith p route"
  shows "snd (middleware w p) =
     Returns (if token_role payload \<in> set allowed then NextResponse_next
              else NextResponse_redirect
                     \<lparr>pathname = ''/dashboard'',
                      searchParams = [(''error'', ''insufficient_permissions'')]\<rparr> [])"
  using assms(1-3) not_public_gated [OF assms(4,5)] find_gated [OF assms(4,5)]
    map_of_gated [OF assms(4)]
  by (simp add: middleware_def dashboardUrl_def)

section \<open>Facts about the attendance handlers\<close>









lemma POST_unchanged_unless_permitted:
  assumes "snd (POST w db request) \<noteq> db"
  shows "\<exists>u. auth_user (authenticateRequest w db) = Some u \<and>
             hasPermission u ''attendance'' ''check_in'' = Returns True"
  using assms
  by (auto simp: POST_def Let_def requirePermission_def insufficient_def
      split: if_splits outcome.splits)

lemma sample_POST_inserts:
  "snd (POST (sample_world (Returns (Some ''token-1'')) ''employee'') (sample_database ''employee'')
          (sample_request None)) \<noteq> sample_database ''employee''"
  by (simp add: POST_def Let_def sample_authenticated success_def requirePermission_def
      sample_employee_check_in empty_object_def)
     (simp add: Let_def sample_request_def sample_world_def sample_database_def)

section \<open>The request authenticator: its five results\<close>

text \<open>
  Claim C1, as the code has it. \<open>authenticateRequest\<close> returns one of four failures or
  a success, and nothing else:
  \<^item> no cookie (or an empty one): \<open>{error: 'No authentication token found', status: 401}\<close>;
  \<^item> a token the codec rejects: \<open>{error: 'Invalid token', status: 401}\<close>, and no user;
  \<^item> a verified payload whose \<open>userId\<close> no row of \<open>users\<close> has:
    \<open>{error: 'User not found', status: 404}\<close>;
  \<^item> a throw of the cookie read, of the verification or of the lookup:
    \<open>{error: 'Authentication failed', status: 500}\<close>;
  \<^item> otherwise the user \<open>{id, email, role, firstName, lastName}\<close> read from the first row
    of \<open>users\<close> whose id is the payload's \<open>userId\<close>.
  The role of the returned user is the role stored in that row. The role the token
  carries is not read, so the two agree only where the store still holds the token's role.
\<close>

theorem authenticateRequest_outcomes:
  "(getAuthCookie w = Returns token \<and> \<not> truthy token \<longrightarrow>
      authenticateRequest w db = failure ''No authentication token found'' 401) \<and>
   (getAuthCookie w = Returns (Some t) \<and> t \<noteq> [] \<and> verifyToken w t = Returns None \<longrightarrow>
      authenticateRequest w db = failure ''Invalid token'' 401 \<and>
      auth_user (authenticateRequest w db) = None) \<and>
   (getAuthCookie w = Returns (Some t) \<and> t \<noteq> [] \<and> verifyToken w t = Returns (Some payload) \<and>
    \<not> rejects w SelectUser \<and> find (\<lambda>r. users_id r = userId payload) (users db) = None \<longrightarrow>
      authenticateRequest w db = failure ''User not found'' 404) \<and>
   (getAuthCookie w = Throws \<or>
    getAuthCookie w = Returns (Some t) \<and> t \<noteq> [] \<and>
      (verifyToken w t = Throws \<or>
       verifyToken w t = Returns (Some payload) \<and> rejects w SelectUser) \<longrightarrow>
      authenticateRequest w db = failure ''Authentication failed'' 500) \<and>
   (getAuthCookie w = Returns (Some t) \<and> t \<noteq> [] \<and> verifyToken w t = Returns (Some payload) \<and>
    \<not> rejects w SelectUser \<and> find (\<lambda>r. users_id r = userId payload) (users db) = Some r \<longrightarrow>
      authenticateRequest w db =
        \<lparr>auth_user = Some \<lparr>uid = users_id r, email = users_email r, role = users_role r,
                            firstName = users_first_name r, lastName = users_last_name r\<rparr>,
         auth_error = None, auth_status = None\<rparr> \<and>
      users_id r = userId payload) \<and>
   (authenticateRequest w db = failure ''No authentication token found'' 401 \<or>
    authenticateRequest w db = failure ''Invalid token'' 401 \<or>
    authenticateRequest w db = failure ''User not found'' 404 \<or>
    authenticateRequest w db = failure ''Authentication failed'' 500 \<or>
    (\<exists>u. authenticateRequest w db = success u))"
proof (intro conjI impI)
  assume "getAuthCookie w = Returns token \<and> \<not> truthy token"
  then show "authenticateRequest w db = failure ''No authentication token found'' 401"
    by (simp add: authenticateRequest_def)
next
  assume a: "getAuthCookie w = Returns (Some t) \<and> t \<noteq> [] \<and> verifyToken w t = Returns None"
  then show "authenticateRequest w db = failure ''Invalid token'' 401"
    by (simp add: authenticateRequest_def)
  then show "auth_user (authenticateRequest w db) = None"
    by (simp add: failure_def)
next
  assume "getAuthCookie w = Returns (Some t) \<and> t \<noteq> [] \<and> verifyToken w t = Returns (Some payload) \<and>
    \<not> rejects w SelectUser \<and> find (\<lambda>r. users_id r = userId payload) (users db) = None"
  then show "authenticateRequest w db = failure ''User not found'' 404"
    by (simp add: authenticateRequest_def select_user_find)
next
  assume "getAuthCookie w = Throws \<or>
    getAuthCookie w = Returns (Some t) \<and> t \<noteq> [] \<and>
      (verifyToken w t = Throws \<or>
       verifyToken w t = Returns (Some payload) \<and> rejects w SelectUser)"
  then show "authenticateRequest w db = failure ''Authentication failed'' 500"
    by (auto simp: authenticateRequest_def)
next
  assume a: "getAuthCookie w = Returns (Some t) \<and> t \<noteq> [] \<and> verifyToken w t = Returns (Some payload) \<and>
    \<not> rejects w SelectUser \<and> find (\<lambda>r. users_id r = userId payload) (users db) = Some r"
  then show "authenticateRequest w db =
        \<lparr>auth_user = Some \<lparr>uid = users_id r, email = users_email r, role = users_role r,
                            firstName = users_first_name r, lastName = users_last_name r\<rparr>,
         auth_error = None, auth_status = None\<rparr>"
    by (simp add: authenticateRequest_def select_user_find success_def)
  from a show "users_id r = userId payload"
    by (auto simp: find_Some_iff)
next
  show "authenticateRequest w db = failure ''No authentication token found'' 401 \<or>
    authenticateRequest w db = failure ''Invalid token'' 401 \<or>
    authenticateRequest w db = failure ''User not found'' 404 \<or>
    authenticateRequest w db = failure ''Authentication failed'' 500 \<or>
    (\<exists>u. authenticateRequest w db = success u)"
    by (rule authenticateRequest_cases)
qed

theorem authenticateRequest_outcomes_witness:
  "authenticateRequest (sample_world (Returns None) ''hr'') (sample_database ''hr'') =
     failure ''No authentication token found'' 401 \<and>
   authenticateRequest (sample_world (Returns (Some ''token-2'')) ''hr'') (sample_database ''hr'') =
     failure ''Invalid token'' 401 \<and>
   authenticateRequest (sample_world (Returns (Some ''token-1'')) ''hr'')
       ((sample_database ''hr'')\<lparr>users := []\<rparr>) =
     failure ''User not found'' 404 \<and>
   authenticateRequest (sample_world Throws ''hr'') (sample_database ''hr'') =
     failure ''Authentication failed'' 500 \<and>
   authenticateRequest (sample_world (Returns (Some ''token-1'')) ''hr'') (sample_database ''hr'') =
     \<lparr>auth_user = Some \<lparr>uid = ''u1'', email = ''u1@example.com'', role = ''hr'',
                         firstName = ''Ada'', lastName = ''One''\<rparr>,
      auth_error = None, auth_status = None\<rparr>"
proof (intro conjI)
  show "authenticateRequest (sample_world (Returns None) ''hr'') (sample_database ''hr'') =
     failure ''No authentication token found'' 401"
    using authenticateRequest_outcomes
      [where w = "sample_world (Returns None) ''hr''" and token = None]
    by (simp add: sample_world_def)
  show "authenticateRequest (sample_world (Returns (Some ''token-2'')) ''hr'') (sample_database ''hr'') =
     failure ''Invalid token'' 401"
    using authenticateRequest_outcomes
      [where w = "sample_world (Returns (Some ''token-2'')) ''hr''" and t = "''token-2''"]
    by (simp add: sample_world_def)
  show "authenticateRequest (sample_world (Returns (Some ''token-1'')) ''hr'')
       ((sample_database ''hr'')\<lparr>users := []\<rparr>) = failure ''User not found'' 404"
    using authenticateRequest_outcomes
      [where w = "sample_world (Returns (Some ''token-1'')) ''hr''" and t = "''token-1''"
         and payload = "\<lparr>userId = ''u1'', token_role = ''hr''\<rparr>"
         and db = "(sample_database ''hr'')\<lparr>users := []\<rparr>"]
    by (simp add: sample_world_def)
  show "authenticateRequest (sample_world Throws ''hr'') (sample_database ''hr'') =
     failure ''Authentication failed'' 500"
    using authenticateRequest_outcomes [where w = "sample_world Throws ''hr''"]
    by (simp add: sample_world_def)
  show "authenticateRequest (sample_world (Returns (Some ''token-1'')) ''hr'') (sample_database ''hr'') =
     \<lparr>auth_user = Some \<lparr>uid = ''u1'', email = ''u1@example.com'', role = ''hr'',
                         firstName = ''Ada'', lastName = ''One''\<rparr>,
      auth_error = None, auth_status = None\<rparr>"
    using authenticateRequest_outcomes
      [where w = "sample_world (Returns (Some ''token-1'')) ''hr''" and t = "''token-1''"
         and payload = "\<lparr>userId = ''u1'', token_role = ''hr''\<rparr>"
         and db = "sample_database ''hr''"
         and r = "\<lparr>users_id = ''u1'', users_email = ''u1@example.com'', users_role = ''hr'',
          users_first_name = ''Ada'', users_last_name = ''One'', users_employee_id = ''E1''\<rparr>"]
    by (simp add: sample_world_def sample_database_def)
qed

text \<open>
  The claim as first stated also asked that the returned user's role be the role of the
  token. A token issued to \<open>u1\<close> as \<open>admin\<close> is still valid after the store has made
  \<open>u1\<close> an \<open>employee\<close>; the user returned then has the role \<open>employee\<close>.
\<close>

theorem authenticateRequest_role_counterexample:
  "getAuthCookie (sample_world (Returns (Some ''token-1'')) ''admin'') = Returns (Some ''token-1'') \<and>
   verifyToken (sample_world (Returns (Some ''token-1'')) ''admin'') ''token-1'' =
     Returns (Some \<lparr>userId = ''u1'', token_role = ''admin''\<rparr>) \<and>
   map_option role
     (auth_user (authenticateRequest (sample_world (Returns (Some ''token-1'')) ''admin'')
        (sample_database ''employee''))) = Some ''employee'' \<and>
   map_option role
     (auth_user (authenticateRequest (sample_world (Returns (Some ''token-1'')) ''admin'')
        (sample_database ''employee''))) \<noteq> Some ''admin''"
  by (simp add: sample_authenticated success_def sample_user_def) (simp add: sample_world_def)

section \<open>The permission evaluator on a role the table does not name\<close>

text \<open>
  Claim C2 states that \<open>hasPermission\<close> answers by membership in the declared set and
  answers \<open>false\<close> for every role other than \<open>admin\<close>, \<open>hr\<close> and \<open>employee\<close>. The
  fallback \<open>|| []\<close> covers the roles for which the property read gives \<open>undefined\<close>.
  For a role that names a property every object inherits, such as \<open>constructor\<close>, the
  read gives a function, the fallback is skipped, and \<open>permissions.some\<close> throws: the
  call does not return \<open>false\<close>. (For every other role \<open>hasPermission_declared\<close> above
  gives the membership test of the claim.)
\<close>

theorem hasPermission_constructor_throws:
  "hasPermission \<lparr>uid = ''u1'', email = ''u1@example.com'', role = ''constructor'',
                   firstName = ''Ada'', lastName = ''One''\<rparr> ''attendance'' ''view_all'' = Throws"
  by (rule hasPermission_inherited) (simp add: Object_prototype_keys_def)

section \<open>The route guard without a credential\<close>

text \<open>
  Claim C3. On a path that matches no public prefix, when the cookie read gives no token
  (or an empty one), the guard redirects to \<open>/auth/login\<close> if and only if the path starts
  with \<open>/app/\<close> or \<open>/api/\<close>, is \<open>/\<close>, or starts with \<open>/dashboard\<close>, \<open>/attendance\<close>,
  \<open>/documents\<close>, \<open>/leave\<close> or \<open>/payroll\<close>; on every other path it lets the request
  through, and so it does on \<open>/employees\<close>, \<open>/reports\<close> and \<open>/settings\<close>.
\<close>

theorem middleware_no_credential:
  assumes "\<not> list_ex (\<lambda>route. startsWith p route) publicRoutes"
    and "getAuthCookie w = Returns token" and "\<not> truthy token"
  shows "(snd (middleware w p) =
            Returns (NextResponse_redirect \<lparr>pathname = ''/auth/login'', searchParams = []\<rparr> [])) =
           (startsWith p ''/app/'' \<or> startsWith p ''/api/'' \<or> p = ''/'' \<or>
            startsWith p ''/dashboard'' \<or> startsWith p ''/attendance'' \<or>
            startsWith p ''/documents'' \<or> startsWith p ''/leave'' \<or> startsWith p ''/payroll'') \<and>
         (snd (middleware w p) = Returns NextResponse_next) =
           (\<not> (startsWith p ''/app/'' \<or> startsWith p ''/api/'' \<or> p = ''/'' \<or>
            startsWith p ''/dashboard'' \<or> startsWith p ''/attendance'' \<or>
            startsWith p ''/documents'' \<or> startsWith p ''/leave'' \<or> startsWith p ''/payroll'')) \<and>
         (startsWith p ''/employees'' \<or> startsWith p ''/reports'' \<or> startsWith p ''/settings'' \<longrightarrow>
            snd (middleware w p) = Returns NextResponse_next)"
proof -
  note m = middleware_falsy_token [OF assms]
  have d: "(startsWith p ''/app/'' \<or> startsWith p ''/api/'' \<or> p = ''/'' \<or>
            startsWith p ''/dashboard'' \<or> startsWith p ''/attendance'' \<or>
            startsWith p ''/documents'' \<or> startsWith p ''/leave'' \<or> startsWith p ''/payroll'') =
           protected_without_token p"
    by (simp only: protected_without_token_def)
  have redirect: "(snd (middleware w p) =
            Returns (NextResponse_redirect \<lparr>pathname = ''/auth/login'', searchParams = []\<rparr> [])) =
           protected_without_token p"
    by (simp add: m loginUrl_def)
  have pass: "(snd (middleware w p) = Returns NextResponse_next) = (\<not> protected_without_token p)"
    by (simp add: m)
  have sections: "startsWith p ''/employees'' \<or> startsWith p ''/reports'' \<or> startsWith p ''/settings'' \<longrightarrow>
            snd (middleware w p) = Returns NextResponse_next"
    using unguarded_sections(1) [of p] by (auto simp: m)
  from redirect pass sections show ?thesis
    unfolding d by (intro conjI)
qed

theorem middleware_no_credential_witness:
  "snd (middleware (sample_world (Returns None) ''hr'') ''/employees'') = Returns NextResponse_next \<and>
   snd (middleware (sample_world (Returns (Some [])) ''hr'') ''/dashboard'') =
     Returns (NextResponse_redirect \<lparr>pathname = ''/auth/login'', searchParams = []\<rparr> [])"
proof
  have "\<not> list_ex (\<lambda>route. startsWith ''/employees'' route) publicRoutes"
    by (simp add: publicRoutes_def)
  from middleware_no_credential [OF this, of "sample_world (Returns None) ''hr''" None]
  show "snd (middleware (sample_world (Returns None) ''hr'') ''/employees'') = Returns NextResponse_next"
    by (simp add: sample_world_def)
  have "\<not> list_ex (\<lambda>route. startsWith ''/dashboard'' route) publicRoutes"
    by (simp add: publicRoutes_def)
  from middleware_no_credential [OF this, of "sample_world (Returns (Some [])) ''hr''" "Some []"]
  show "snd (middleware (sample_world (Returns (Some [])) ''hr'') ''/dashboard'') =
     Returns (NextResponse_redirect \<lparr>pathname = ''/auth/login'', searchParams = []\<rparr> [])"
    by (simp add: sample_world_def)
qed

section \<open>The route guard on a token that fails verification\<close>

text \<open>
  Claim C4. On a path that matches no public prefix, when the request carries a token and
  the codec rejects it, the guard redirects to \<open>/auth/login\<close> and the response sets the
  cookie \<open>auth-token\<close> to the empty value with \<open>maxAge\<close> 0, \<open>httpOnly\<close>, \<open>sameSite\<close> lax
  and path \<open>/\<close> (and \<open>secure\<close> in production).
\<close>

theorem middleware_invalid_token:
  assumes "\<not> list_ex (\<lambda>route. startsWith p route) publicRoutes"
    and "getAuthCookie w = Returns (Some t)" and "t \<noteq> []"
    and "verifyToken w t = Returns None"
  shows "snd (middleware w p) =
     Returns (NextResponse_redirect \<lparr>pathname = ''/auth/login'', searchParams = []\<rparr>
       [\<lparr>cookie_name = ''auth-token'', cookie_value = [], httpOnly = True,
         secure = (NODE_ENV w = Some ''production''), sameSite = lax, maxAge = 0,
         cookie_path = ''/''\<rparr>])"
  using assms
  by (simp add: middleware_def loginUrl_def clear_cookie_def)

theorem middleware_invalid_token_witness:
  "snd (middleware (sample_world (Returns (Some ''token-2'')) ''hr'') ''/dashboard'') =
     Returns (NextResponse_redirect \<lparr>pathname = ''/auth/login'', searchParams = []\<rparr>
       [\<lparr>cookie_name = ''auth-token'', cookie_value = [], httpOnly = True,
         secure = True, sameSite = lax, maxAge = 0, cookie_path = ''/''\<rparr>])"
proof -
  have "\<not> list_ex (\<lambda>route. startsWith ''/dashboard'' route) publicRoutes"
    by (simp add: publicRoutes_def)
  from middleware_invalid_token
    [OF this, of "sample_world (Returns (Some ''token-2'')) ''hr''" "''token-2''"]
  show ?thesis
    by (simp add: sample_world_def)
qed

section \<open>The route guard on a role-gated route\<close>

text \<open>
  Claim C5. When the request carries a token the codec accepts and the path starts with a
  prefix of \<open>roleBasedRoutes\<close>, the guard lets the request through if the token's role
  is among the roles of that prefix, and otherwise redirects to \<open>/dashboard\<close> with the
  query parameter \<open>error=insufficient_permissions\<close>. In particular \<open>/employees\<close> with
  an \<open>employee\<close> token is redirected there, and with an \<open>hr\<close> token passes.
\<close>

theorem middleware_role_gate:
  assumes "getAuthCookie w = Returns (Some t)" and "t \<noteq> []"
    and "verifyToken w t = Returns (Some payload)"
  shows "((route, allowed) \<in> set roleBasedRoutes \<and> startsWith p route \<longrightarrow>
            snd (middleware w p) =
              Returns (if token_role payload \<in> set allowed then NextResponse_next
                       else NextResponse_redirect
                              \<lparr>pathname = ''/dashboard'',
                               searchParams = [(''error'', ''insufficient_permissions'')]\<rparr> [])) \<and>
         (token_role payload = ''employee'' \<longrightarrow>
            snd (middleware w ''/employees'') =
              Returns (NextResponse_redirect
                         \<lparr>pathname = ''/dashboard'',
                          searchParams = [(''error'', ''insufficient_permissions'')]\<rparr> [])) \<and>
         (token_role payload = ''hr'' \<longrightarrow>
            snd (middleware w ''/employees'') = Returns NextResponse_next)"
proof (intro conjI impI)
  assume "(route, allowed) \<in> set roleBasedRoutes \<and> startsWith p route"
  then have "(route, allowed) \<in> set roleBasedRoutes" and "startsWith p route"
    by simp_all
  then show "snd (middleware w p) =
      Returns (if token_role payload \<in> set allowed then NextResponse_next
               else NextResponse_redirect
                      \<lparr>pathname = ''/dashboard'',
                       searchParams = [(''error'', ''insufficient_permissions'')]\<rparr> [])"
    by (rule middleware_gated [OF assms])
next
  have r: "(''/employees'', [''hr'', ''admin'']) \<in> set roleBasedRoutes"
    by (simp add: roleBasedRoutes_def)
  have s: "startsWith ''/employees'' ''/employees''"
    by simp
  note g = middleware_gated [OF assms r s]
  {
    assume "token_role payload = ''employee''"
    with g show "snd (middleware w ''/employees'') =
        Returns (NextResponse_redirect
                   \<lparr>pathname = ''/dashboard'',
                    searchParams = [(''error'', ''insufficient_permissions'')]\<rparr> [])"
      by simp
  }
  {
    assume "token_role payload = ''hr''"
    with g show "snd (middleware w ''/employees'') = Returns NextResponse_next"
      by simp
  }
qed

theorem middleware_role_gate_witness:
  "snd (middleware (sample_world (Returns (Some ''token-1'')) ''employee'') ''/employees'') =
     Returns (NextResponse_redirect
       \<lparr>pathname = ''/dashboard'',
        searchParams = [(''error'', ''insufficient_permissions'')]\<rparr> []) \<and>
   snd (middleware (sample_world (Returns (Some ''token-1'')) ''hr'') ''/employees'') =
     Returns NextResponse_next \<and>
   snd (middleware (sample_world (Returns (Some ''token-1'')) ''admin'') ''/settings/roles'') =
     Returns NextResponse_next"
proof -
  have c: "getAuthCookie (sample_world (Returns (Some ''token-1'')) k) = Returns (Some ''token-1'')" for k
    by (simp add: sample_world_def)
  have n: "''token-1'' \<noteq> []"
    by simp
  have v: "verifyToken (sample_world (Returns (Some ''token-1'')) k) ''token-1'' =
      Returns (Some \<lparr>userId = ''u1'', token_role = k\<rparr>)" for k
    by (simp add: sample_world_def)
  have r: "(''/settings'', [''admin'']) \<in> set roleBasedRoutes \<and>
      startsWith ''/settings/roles'' ''/settings''"
    by (simp add: roleBasedRoutes_def)
  from middleware_role_gate [OF c [of "''employee''"] n v [of "''employee''"]]
    middleware_role_gate [OF c [of "''hr''"] n v [of "''hr''"]]
    middleware_role_gate [OF c [of "''admin''"] n v [of "''admin''"],
      where route = "''/settings''" and allowed = "[''admin'']" and p = "''/settings/roles''"] r
  show ?thesis
    by simp
qed

section \<open>The route guard on a public route\<close>

text \<open>
  Claim C6. On a path that starts with \<open>/auth/login\<close>, \<open>/auth/register\<close>,
  \<open>/api/auth/login\<close>, \<open>/api/auth/register\<close> or \<open>/api/auth/logout\<close> the guard lets
  the request through whatever the world is: it makes no call to the cookie reader or
  to the codec, and the answer does not depend on a credential or a role.
\<close>

theorem middleware_public_route:
  assumes "route \<in> {''/auth/login'', ''/auth/register'', ''/api/auth/login'',
                     ''/api/auth/register'', ''/api/auth/logout''}"
    and "startsWith p route"
  shows "middleware w p = ([], Returns NextResponse_next)"
proof -
  from assms have "list_ex (\<lambda>route. startsWith p route) publicRoutes"
    by (auto simp: publicRoutes_def)
  then show ?thesis
    by (simp add: middleware_def)
qed

theorem middleware_public_route_witness:
  "middleware (sample_world (Returns None) ''hr'') ''/auth/login'' = ([], Returns NextResponse_next) \<and>
   middleware (sample_world Throws ''hr'') ''/api/auth/logout'' = ([], Returns NextResponse_next) \<and>
   middleware (sample_world (Returns (Some ''token-2'')) ''hr'') ''/auth/register/step''
     = ([], Returns NextResponse_next)"
proof (intro conjI)
  show "middleware (sample_world (Returns None) ''hr'') ''/auth/login'' = ([], Returns NextResponse_next)"
    by (rule middleware_public_route [where route = "''/auth/login''"]) simp_all
  show "middleware (sample_world Throws ''hr'') ''/api/auth/logout'' = ([], Returns NextResponse_next)"
    by (rule middleware_public_route [where route = "''/api/auth/logout''"]) simp_all
  show "middleware (sample_world (Returns (Some ''token-2'')) ''hr'') ''/auth/register/step''
     = ([], Returns NextResponse_next)"
    by (rule middleware_public_route [where route = "''/auth/register''"]) simp_all
qed

section \<open>The two guards of the handlers\<close>

text \<open>
  Claim C7 states that \<open>requirePermission(resource, action)\<close> applied to a user returns
  the empty object when \<open>hasPermission\<close> holds and
  \<open>{error: 'Insufficient permissions', status: 403}\<close> when it does not, and that
  \<open>requireRole(allowedRoles)\<close> returns the same error object exactly when the user's role
  is not in \<open>allowedRoles\<close>. The part on \<open>requireRole\<close> holds for every user, and so
  does the part on \<open>requirePermission\<close> wherever \<open>hasPermission\<close> returns
  (\<open>requirePermission_answers\<close> above). For a user whose role names a property every
  object inherits, \<open>hasPermission\<close> throws (claim C2), and the checker, which has no
  \<open>try\<close>, throws with it: it returns neither the empty object nor the error object.
\<close>

theorem requirePermission_constructor_throws:
  "requirePermission ''attendance'' ''check_in''
     \<lparr>uid = ''u1'', email = ''u1@example.com'', role = ''constructor'',
      firstName = ''Ada'', lastName = ''One''\<rparr> = Throws \<and>
   requirePermission ''attendance'' ''check_in''
     \<lparr>uid = ''u1'', email = ''u1@example.com'', role = ''constructor'',
      firstName = ''Ada'', lastName = ''One''\<rparr> \<noteq> Returns insufficient"
proof -
  have "role \<lparr>uid = ''u1'', email = ''u1@example.com'', role = ''constructor'',
      firstName = ''Ada'', lastName = ''One''\<rparr> \<in> set Object_prototype_keys"
    by (simp add: Object_prototype_keys_def)
  then have "hasPermission \<lparr>uid = ''u1'', email = ''u1@example.com'', role = ''constructor'',
      firstName = ''Ada'', lastName = ''One''\<rparr> ''attendance'' ''check_in'' = Throws"
    by (rule hasPermission_inherited)
  then show ?thesis
    by (simp add: requirePermission_def)
qed

section \<open>Authenticating twice\<close>

text \<open>
  Claim C8. Take two calls of \<open>authenticateRequest\<close> that read the same token, for
  which the codec gives the same payload both times (the token is valid and unexpired at
  both calls), against the same \<open>users\<close> table; the two calls may differ in everything
  else. Then
  \<^item> when the lookup is answered both times and the table holds a row for the payload's
    \<open>userId\<close>, both calls return a user, and it is the same user: the
    \<open>{id, email, role, firstName, lastName}\<close> of the first such row;
  \<^item> whenever both calls return a user, it is the same user;
  \<^item> when the lookup is answered both times or rejected both times, the two results are
    equal altogether.
\<close>

theorem authenticateRequest_same_twice:
  assumes "getAuthCookie w1 = Returns (Some t)" and "getAuthCookie w2 = Returns (Some t)"
    and "verifyToken w1 t = Returns (Some payload)" and "verifyToken w2 t = Returns (Some payload)"
    and "users db1 = users db2"
  shows "(t \<noteq> [] \<and> \<not> rejects w1 SelectUser \<and> \<not> rejects w2 SelectUser \<and>
          find (\<lambda>r. users_id r = userId payload) (users db1) = Some r \<longrightarrow>
            auth_user (authenticateRequest w1 db1) =
              Some \<lparr>uid = users_id r, email = users_email r, role = users_role r,
                    firstName = users_first_name r, lastName = users_last_name r\<rparr> \<and>
            auth_user (authenticateRequest w2 db2) =
              Some \<lparr>uid = users_id r, email = users_email r, role = users_role r,
                    firstName = users_first_name r, lastName = users_last_name r\<rparr>) \<and>
         (auth_user (authenticateRequest w1 db1) = Some u \<and>
          auth_user (authenticateRequest w2 db2) = Some u' \<longrightarrow> u = u') \<and>
         (rejects w1 SelectUser = rejects w2 SelectUser \<longrightarrow>
            authenticateRequest w1 db1 = authenticateRequest w2 db2)"
proof (intro conjI impI)
  assume a: "t \<noteq> [] \<and> \<not> rejects w1 SelectUser \<and> \<not> rejects w2 SelectUser \<and>
          find (\<lambda>r. users_id r = userId payload) (users db1) = Some r"
  with assms(1,3) show "auth_user (authenticateRequest w1 db1) =
              Some \<lparr>uid = users_id r, email = users_email r, role = users_role r,
                    firstName = users_first_name r, lastName = users_last_name r\<rparr>"
    by (simp add: authenticateRequest_def select_user_find success_def)
  from a assms(5) have "find (\<lambda>r. users_id r = userId payload) (users db2) = Some r"
    by simp
  with a assms(2,4) show "auth_user (authenticateRequest w2 db2) =
              Some \<lparr>uid = users_id r, email = users_email r, role = users_role r,
                    firstName = users_first_name r, lastName = users_last_name r\<rparr>"
    by (simp add: authenticateRequest_def select_user_find success_def)
next
  assume b: "auth_user (authenticateRequest w1 db1) = Some u \<and>
          auth_user (authenticateRequest w2 db2) = Some u'"
  have s: "select_user db1 k = select_user db2 k" for k
    using assms(5) by (simp add: select_user_def)
  from b assms(1,3) have "\<exists>us. select_user db1 (userId payload) = u # us"
    by (auto simp: authenticateRequest_def failure_def success_def
        split: if_splits list.splits)
  moreover from b assms(2,4) have "\<exists>us. select_user db2 (userId payload) = u' # us"
    by (auto simp: authenticateRequest_def failure_def success_def
        split: if_splits list.splits)
  ultimately show "u = u'"
    using s by auto
next
  assume "rejects w1 SelectUser = rejects w2 SelectUser"
  with assms show "authenticateRequest w1 db1 = authenticateRequest w2 db2"
    by (simp add: authenticateRequest_def select_user_def)
qed

theorem authenticateRequest_same_twice_witness:
  "auth_user (authenticateRequest (sample_world (Returns (Some ''token-1'')) ''hr'')
      (sample_database ''hr'')) =
     Some \<lparr>uid = ''u1'', email = ''u1@example.com'', role = ''hr'',
           firstName = ''Ada'', lastName = ''One''\<rparr> \<and>
   auth_user (authenticateRequest
      ((sample_world (Returns (Some ''token-1'')) ''hr'')\<lparr>generated_id := ''a4'', NODE_ENV := None\<rparr>)
      ((sample_database ''hr'')\<lparr>attendance := []\<rparr>)) =
     Some \<lparr>uid = ''u1'', email = ''u1@example.com'', role = ''hr'',
           firstName = ''Ada'', lastName = ''One''\<rparr> \<and>
   authenticateRequest (sample_world (Returns (Some ''token-1'')) ''hr'') (sample_database ''hr'') =
   authenticateRequest
     ((sample_world (Returns (Some ''token-1'')) ''hr'')\<lparr>generated_id := ''a4'', NODE_ENV := None\<rparr>)
     ((sample_database ''hr'')\<lparr>attendance := []\<rparr>)"
proof -
  let ?w1 = "sample_world (Returns (Some ''token-1'')) ''hr''"
  let ?w2 = "?w1\<lparr>generated_id := ''a4'', NODE_ENV := None\<rparr>"
  let ?db1 = "sample_database ''hr''"
  let ?db2 = "?db1\<lparr>attendance := []\<rparr>"
  let ?r = "\<lparr>users_id = ''u1'', users_email = ''u1@example.com'', users_role = ''hr'',
      users_first_name = ''Ada'', users_last_name = ''One'', users_employee_id = ''E1''\<rparr>"
  have c1: "getAuthCookie ?w1 = Returns (Some ''token-1'')"
    and c2: "getAuthCookie ?w2 = Returns (Some ''token-1'')"
    and v1: "verifyToken ?w1 ''token-1'' = Returns (Some \<lparr>userId = ''u1'', token_role = ''hr''\<rparr>)"
    and v2: "verifyToken ?w2 ''token-1'' = Returns (Some \<lparr>userId = ''u1'', token_role = ''hr''\<rparr>)"
    by (simp_all add: sample_world_def)
  have d: "users ?db1 = users ?db2"
    by simp
  have h: "''token-1'' \<noteq> [] \<and> \<not> rejects ?w1 SelectUser \<and> \<not> rejects ?w2 SelectUser \<and>
      find (\<lambda>r. users_id r = userId \<lparr>userId = ''u1'', token_role = ''hr''\<rparr>) (users ?db1) = Some ?r"
    by (simp add: sample_world_def sample_database_def)
  have e: "rejects ?w1 SelectUser = rejects ?w2 SelectUser"
    by (simp add: sample_world_def)
  note th = authenticateRequest_same_twice [OF c1 c2 v1 v2 d, where r = ?r]
  from th [THEN conjunct1, THEN mp, OF h] th [THEN conjunct2, THEN conjunct2, THEN mp, OF e]
  show ?thesis
    by simp
qed

section \<open>Who can create an attendance record\<close>

text \<open>
  Claim C9. Neither the set declared for \<open>admin\<close> nor the one for \<open>hr\<close> contains
  \<open>(attendance, check_in)\<close>. So for an authenticated user whose role is \<open>admin\<close> or \<open>hr\<close>
  the \<open>POST\<close> handler answers \<open>{error: 'Insufficient permissions'}\<close> with status 403 and
  leaves the database as it was; and whenever the handler changes the database, the
  authenticated user's role is \<open>employee\<close>.
\<close>

theorem POST_check_in_employee_only:
  "perm ''attendance'' ''check_in'' \<notin> set (declared ''admin'') \<and>
   perm ''attendance'' ''check_in'' \<notin> set (declared ''hr'') \<and>
   (auth_user (authenticateRequest w db) = Some u \<and> (role u = ''admin'' \<or> role u = ''hr'') \<longrightarrow>
      POST w db request =
        (\<lparr>response_body = ErrorBody (Some ''Insufficient permissions''), response_status = 403\<rparr>, db)) \<and>
   (snd (POST w db request) \<noteq> db \<longrightarrow>
      (\<exists>u. auth_user (authenticateRequest w db) = Some u \<and> role u = ''employee''))"
proof (intro conjI impI)
  show "perm ''attendance'' ''check_in'' \<notin> set (declared ''admin'')"
    by (rule check_in_admin)
  show "perm ''attendance'' ''check_in'' \<notin> set (declared ''hr'')"
    by (rule check_in_hr)
next
  assume a: "auth_user (authenticateRequest w db) = Some u \<and> (role u = ''admin'' \<or> role u = ''hr'')"
  then have s: "authenticateRequest w db = success u"
    by (simp add: authenticateRequest_user)
  from a have "requirePermission ''attendance'' ''check_in'' u = Returns insufficient"
    by (simp add: requirePermission_admin_hr)
  then show "POST w db request =
        (\<lparr>response_body = ErrorBody (Some ''Insufficient permissions''), response_status = 403\<rparr>, db)"
    by (simp add: POST_def s success_def insufficient_def NextResponse_json_def)
next
  assume "snd (POST w db request) \<noteq> db"
  then obtain u where u: "auth_user (authenticateRequest w db) = Some u"
      and p: "hasPermission u ''attendance'' ''check_in'' = Returns True"
    using POST_unchanged_unless_permitted by blast
  from hasPermission_True [OF p] check_in_admin check_in_hr have "role u = ''employee''"
    by (rule employee_only)
  with u show "\<exists>u. auth_user (authenticateRequest w db) = Some u \<and> role u = ''employee''"
    by blast
qed

theorem POST_check_in_employee_only_witness:
  "POST (sample_world (Returns (Some ''token-1'')) ''hr'') (sample_database ''hr'') (sample_request None) =
     (\<lparr>response_body = ErrorBody (Some ''Insufficient permissions''), response_status = 403\<rparr>,
      sample_database ''hr'') \<and>
   (\<exists>u. auth_user (authenticateRequest (sample_world (Returns (Some ''token-1'')) ''employee'')
                     (sample_database ''employee'')) = Some u \<and> role u = ''employee'')"
proof
  have "role (sample_user ''hr'') = ''hr''"
    by (simp add: sample_user_def)
  with sample_auth_user [of "''hr''" "''hr''"]
    POST_check_in_employee_only
      [of "sample_world (Returns (Some ''token-1'')) ''hr''" "sample_database ''hr''"
          "sample_user ''hr''" "sample_request None"]
  show "POST (sample_world (Returns (Some ''token-1'')) ''hr'') (sample_database ''hr'') (sample_request None) =
     (\<lparr>response_body = ErrorBody (Some ''Insufficient permissions''), response_status = 403\<rparr>,
      sample_database ''hr'')"
    by simp
  from sample_POST_inserts
    POST_check_in_employee_only
      [of "sample_world (Returns (Some ''token-1'')) ''employee''" "sample_database ''employee''"
          "sample_user ''employee''" "sample_request None"]
  show "\<exists>u. auth_user (authenticateRequest (sample_world (Returns (Some ''token-1'')) ''employee'')
                     (sample_database ''employee'')) = Some u \<and> role u = ''employee''"
    by blast
qed

section \<open>Whose attendance records an employee reads\<close>




end
